theory Spec2Isabelle
  imports Complex_Main
begin

section \<open>The audio recorder component\<close>

text \<open>
  The component \<open>AudioRecorderDemo\<close> keeps six React state variables and offers five
  asynchronous handlers over the platform's audio and sharing modules. The handlers are
  embedded as functions on the component state and on a record of what the platform has
  been asked so far; what the platform answers to each call is an input of the handler.
\<close>

subsection \<open>Platform values\<close>

type_synonym handle = nat

text \<open>A promise returned by a platform call either rejects (the \<open>await\<close> throws) or
  resolves to a value.\<close>

datatype 'a outcome = Rejects | Resolves 'a

record android_options =
  android_extension :: string
  android_outputFormat :: nat
  android_audioEncoder :: nat
  android_sampleRate :: nat
  android_numberOfChannels :: nat
  android_bitRate :: nat

record ios_options =
  ios_extension :: string
  ios_audioQuality :: nat
  ios_outputFormat :: string
  ios_bitDepthHint :: nat
  ios_sampleRate :: nat
  ios_numberOfChannels :: nat
  ios_bitRate :: nat
  ios_bitRateStrategy :: nat
  ios_linearPCMBitDepth :: nat
  ios_linearPCMIsBigEndian :: bool
  ios_linearPCMIsFloat :: bool

record web_options =
  web_mimeType :: string
  web_bitsPerSecond :: nat

record recording_options =
  android :: android_options
  ios :: ios_options
  web :: web_options

record share_options =
  mimeType :: string
  dialogTitle :: string
  UTI :: string

record playback_status =
  isLoaded :: bool
  didJustFinish :: bool

text \<open>The calls the component makes on the platform modules and on the console. A
  recording or sound object is named by a handle; \<open>CreateAsync\<close> carries the handle of
  the sound it hands back when it resolves.\<close>

datatype call =
    RequestPermissionsAsync
  | SetAudioModeAsync bool bool
  | PrepareToRecordAsync handle recording_options
  | StartAsync handle
  | StopAndUnloadAsync handle
  | GetURI handle
  | UnloadAsync handle
  | CreateAsync string handle
  | SetOnPlaybackStatusUpdate handle
  | SetVolumeAsync handle real
  | PlayAsync handle
  | StopAsync handle
  | IsAvailableAsync
  | GetInfoAsync string
  | ShareAsync string share_options
  | ConsoleError string
  | ConsoleLog string

text \<open>An event is a call with whether it came back normally. The trace of a world holds
  the most recent event first.\<close>

type_synonym event = "call \<times> bool"

record world =
  nextHandle :: handle
  trace :: "event list"

definition emit :: "call \<Rightarrow> bool \<Rightarrow> world \<Rightarrow> world" where
  "emit c ok w = w\<lparr>trace := (c, ok) # trace w\<rparr>"

subsection \<open>Component state\<close>

record controller =
  recording :: "handle option"
  recordedURI :: "string option"
  isRecording :: bool
  sound :: "handle option"
  isPlaying :: bool
  error :: "string option"

type_synonym config = "controller \<times> world"

definition initial :: config where
  "initial =
     (\<lparr>recording = None, recordedURI = None, isRecording = False,
       sound = None, isPlaying = False, error = None\<rparr>,
      \<lparr>nextHandle = 0, trace = []\<rparr>)"

text \<open>\<open>!recordedURI\<close> is true of \<open>null\<close> and of the empty string.\<close>

definition truthy :: "string option \<Rightarrow> bool" where
  "truthy u = (case u of None \<Rightarrow> False | Some v \<Rightarrow> v \<noteq> [])"

text \<open>The locator a handler goes on with once \<open>!recordedURI\<close> has been found false.\<close>

definition asset :: "string option \<Rightarrow> string option" where
  "asset u = (if truthy u then u else None)"

text \<open>How the body of a \<open>try\<close> block ends, and how an async handler's promise settles.\<close>

datatype flow = Normal | Thrown

datatype completion = Fulfilled | Rejected

subsection \<open>startRecording\<close>

definition recordingOptions :: recording_options where
  "recordingOptions =
     \<lparr>android = \<lparr>android_extension = ''.wav'', android_outputFormat = 0,
                 android_audioEncoder = 0, android_sampleRate = 48000,
                 android_numberOfChannels = 2, android_bitRate = 128000\<rparr>,
      ios = \<lparr>ios_extension = ''.wav'', ios_audioQuality = 127, ios_outputFormat = ''lpcm'',
             ios_bitDepthHint = 32, ios_sampleRate = 48000, ios_numberOfChannels = 2,
             ios_bitRate = 128000, ios_bitRateStrategy = 0, ios_linearPCMBitDepth = 32,
             ios_linearPCMIsBigEndian = False, ios_linearPCMIsFloat = False\<rparr>,
      web = \<lparr>web_mimeType = ''audio/wav'', web_bitsPerSecond = 128000\<rparr>\<rparr>"

record start_env =
  permissions :: "string outcome"
  recordingMode :: "unit outcome"
  prepare :: "unit outcome"
  start :: "unit outcome"

definition startRecording_try :: "start_env \<Rightarrow> config \<Rightarrow> flow \<times> config" where
  "startRecording_try env c =
     (case c of (s, w) \<Rightarrow>
        (case permissions env of
           Rejects \<Rightarrow> (Thrown, s, emit RequestPermissionsAsync False w)
         | Resolves status \<Rightarrow>
             let w1 = emit RequestPermissionsAsync True w in
             if status \<noteq> ''granted''
             then (Normal, s,
                   emit (ConsoleError ''Permission to access microphone not granted'') True w1)
             else
               (case recordingMode env of
                  Rejects \<Rightarrow> (Thrown, s, emit (SetAudioModeAsync True True) False w1)
                | Resolves _ \<Rightarrow>
                    let w2 = emit (SetAudioModeAsync True True) True w1;
                        newRecording = nextHandle w2;
                        w3 = w2\<lparr>nextHandle := Suc newRecording\<rparr> in
                    (case prepare env of
                       Rejects \<Rightarrow>
                         (Thrown, s,
                          emit (PrepareToRecordAsync newRecording recordingOptions) False w3)
                     | Resolves _ \<Rightarrow>
                         let w4 = emit (PrepareToRecordAsync newRecording recordingOptions)
                                    True w3 in
                         (case start env of
                            Rejects \<Rightarrow> (Thrown, s, emit (StartAsync newRecording) False w4)
                          | Resolves _ \<Rightarrow>
                              (Normal,
                               s\<lparr>recording := Some newRecording, isRecording := True\<rparr>,
                               emit (ConsoleLog ''Recording started'') True
                                 (emit (StartAsync newRecording) True w4)))))))"

definition startRecording :: "start_env \<Rightarrow> config \<Rightarrow> completion \<times> config" where
  "startRecording env c =
     (case startRecording_try env c of
        (Normal, c') \<Rightarrow> (Fulfilled, c')
      | (Thrown, s, w) \<Rightarrow>
          (Fulfilled, s\<lparr>error := Some ''Failed to start recording''\<rparr>,
           emit (ConsoleError ''Failed to start recording'') True w))"

subsection \<open>stopRecording\<close>

record stop_env =
  stopAndUnload :: "unit outcome"
  uri :: "string option"
  playbackMode :: "unit outcome"

definition stopRecording_try :: "stop_env \<Rightarrow> config \<Rightarrow> flow \<times> config" where
  "stopRecording_try env c =
     (case c of (s, w) \<Rightarrow>
        (case recording s of
           None \<Rightarrow> (Normal, s, w)
         | Some r \<Rightarrow>
             (case stopAndUnload env of
                Rejects \<Rightarrow> (Thrown, s, emit (StopAndUnloadAsync r) False w)
              | Resolves _ \<Rightarrow>
                  let w1 = emit (GetURI r) True (emit (StopAndUnloadAsync r) True w);
                      w2 = emit (ConsoleLog ''Recording stopped and stored at:'') True w1;
                      s1 = s\<lparr>recordedURI := uri env, recording := None,
                              isRecording := False\<rparr> in
                  (case playbackMode env of
                     Rejects \<Rightarrow> (Thrown, s1, emit (SetAudioModeAsync False False) False w2)
                   | Resolves _ \<Rightarrow>
                       (Normal, s1, emit (SetAudioModeAsync False False) True w2)))))"

definition stopRecording :: "stop_env \<Rightarrow> config \<Rightarrow> completion \<times> config" where
  "stopRecording env c =
     (case stopRecording_try env c of
        (Normal, c') \<Rightarrow> (Fulfilled, c')
      | (Thrown, s, w) \<Rightarrow>
          (Fulfilled, s\<lparr>error := Some ''Failed to stop recording''\<rparr>,
           emit (ConsoleError ''Failed to stop recording'') True w))"

subsection \<open>playRecording\<close>

record play_env =
  unload :: "unit outcome"
  create :: "unit outcome"
  setVolume :: "unit outcome"
  play :: "unit outcome"

text \<open>The first step of the body: a sound already held is unloaded.\<close>

definition unloadPrevious :: "play_env \<Rightarrow> config \<Rightarrow> flow \<times> config" where
  "unloadPrevious env c =
     (case c of (s, w) \<Rightarrow>
        (case sound s of
           None \<Rightarrow> (Normal, s, w)
         | Some old \<Rightarrow>
             (case unload env of
                Rejects \<Rightarrow> (Thrown, s, emit (UnloadAsync old) False w)
              | Resolves _ \<Rightarrow> (Normal, s, emit (UnloadAsync old) True w))))"

definition playRecording_try :: "play_env \<Rightarrow> config \<Rightarrow> flow \<times> config" where
  "playRecording_try env c =
     (case c of (s, w) \<Rightarrow>
        (case asset (recordedURI s) of
           None \<Rightarrow> (Normal, s\<lparr>error := Some ''No recording to play''\<rparr>, w)
         | Some u \<Rightarrow>
          (case unloadPrevious env (s, w) of
             (Thrown, c') \<Rightarrow> (Thrown, c')
           | (Normal, s0, w0) \<Rightarrow>
               let newSound = nextHandle w0;
                   w1 = w0\<lparr>nextHandle := Suc newSound\<rparr> in
               (case create env of
                  Rejects \<Rightarrow>
                    (Thrown, s0, emit (CreateAsync u newSound) False w1)
                | Resolves _ \<Rightarrow>
                    let w2 = emit (CreateAsync u newSound) True w1;
                        s1 = s0\<lparr>sound := Some newSound\<rparr>;
                        w3 = emit (SetOnPlaybackStatusUpdate newSound) True w2 in
                    (case setVolume env of
                       Rejects \<Rightarrow> (Thrown, s1, emit (SetVolumeAsync newSound 1) False w3)
                     | Resolves _ \<Rightarrow>
                         let w4 = emit (SetVolumeAsync newSound 1) True w3;
                             s2 = s1\<lparr>isPlaying := True\<rparr> in
                         (case play env of
                            Rejects \<Rightarrow> (Thrown, s2, emit (PlayAsync newSound) False w4)
                          | Resolves _ \<Rightarrow>
                              (Normal, s2,
                               emit (ConsoleLog ''Playback started'') True
                                 (emit (PlayAsync newSound) True w4))))))))"

definition playRecording :: "play_env \<Rightarrow> config \<Rightarrow> completion \<times> config" where
  "playRecording env c =
     (case playRecording_try env c of
        (Normal, c') \<Rightarrow> (Fulfilled, c')
      | (Thrown, s, w) \<Rightarrow>
          (Fulfilled, s\<lparr>error := Some ''Failed to play recording''\<rparr>,
           emit (ConsoleError ''Failed to play recorded audio'') True w))"

text \<open>The callback that \<open>playRecording\<close> registers on the new sound.\<close>

definition onPlaybackStatusUpdate :: "playback_status \<Rightarrow> controller \<Rightarrow> controller" where
  "onPlaybackStatusUpdate status s =
     (if isLoaded status \<and> didJustFinish status then s\<lparr>isPlaying := False\<rparr> else s)"

subsection \<open>stopPlayback\<close>

definition stopPlayback :: "unit outcome \<Rightarrow> config \<Rightarrow> completion \<times> config" where
  "stopPlayback stop c =
     (case c of (s, w) \<Rightarrow>
        (case sound s of
           None \<Rightarrow> (Fulfilled, s, w)
         | Some h \<Rightarrow>
             (case stop of
                Rejects \<Rightarrow> (Rejected, s, emit (StopAsync h) False w)
              | Resolves _ \<Rightarrow>
                  (Fulfilled, s\<lparr>isPlaying := False\<rparr>, emit (StopAsync h) True w))))"

subsection \<open>shareRecording\<close>

record share_env =
  isAvailable :: "bool outcome"
  getInfo :: "unit outcome"
  share :: "unit outcome"

definition shareOptions :: share_options where
  "shareOptions =
     \<lparr>mimeType = ''audio/m4a'', dialogTitle = ''Share your audio recording'',
      UTI = ''public.audio''\<rparr>"

definition shareRecording_try :: "share_env \<Rightarrow> string \<Rightarrow> config \<Rightarrow> flow \<times> config" where
  "shareRecording_try env u c =
     (case c of (s, w) \<Rightarrow>
        (case isAvailable env of
           Rejects \<Rightarrow> (Thrown, s, emit IsAvailableAsync False w)
         | Resolves isSharingAvailable \<Rightarrow>
             let w1 = emit IsAvailableAsync True w in
             if \<not> isSharingAvailable
             then (Normal, s\<lparr>error := Some ''Sharing is not available on this device''\<rparr>, w1)
             else
               (case getInfo env of
                  Rejects \<Rightarrow> (Thrown, s, emit (GetInfoAsync u) False w1)
                | Resolves _ \<Rightarrow>
                    let w2 = emit (ConsoleLog ''Original recording file info:'') True
                               (emit (GetInfoAsync u) True w1) in
                    (case share env of
                       Rejects \<Rightarrow> (Thrown, s, emit (ShareAsync u shareOptions) False w2)
                     | Resolves _ \<Rightarrow> (Normal, s, emit (ShareAsync u shareOptions) True w2)))))"

definition shareRecording :: "share_env \<Rightarrow> config \<Rightarrow> completion \<times> config" where
  "shareRecording env c =
     (case c of (s, w) \<Rightarrow>
        (case asset (recordedURI s) of
           None \<Rightarrow> (Fulfilled, s\<lparr>error := Some ''No recording to share''\<rparr>, w)
         | Some u \<Rightarrow>
          (case shareRecording_try env u (s, w) of
             (Normal, c') \<Rightarrow> (Fulfilled, c')
           | (Thrown, s', w') \<Rightarrow>
               (Fulfilled, s'\<lparr>error := Some ''Failed to share recording''\<rparr>,
                emit (ConsoleError ''Error sharing recording:'') True w'))))"

subsection \<open>Sequences of operations\<close>

text \<open>What can happen to the component: one of its five handlers is called, with the
  platform's answers for that call, or the platform delivers a playback status to the
  callback of a sound.\<close>

datatype action =
    StartRecording start_env
  | StopRecording stop_env
  | PlayRecording play_env
  | StopPlayback "unit outcome"
  | ShareRecording share_env
  | PlaybackStatusUpdate handle playback_status

text \<open>A status reaches \<open>onPlaybackStatusUpdate\<close> only for a sound on which
  \<open>playRecording\<close> has set the callback.\<close>

definition registered :: "handle \<Rightarrow> event list \<Rightarrow> bool" where
  "registered h t = ((SetOnPlaybackStatusUpdate h, True) \<in> set t)"

fun perform :: "action \<Rightarrow> config \<Rightarrow> completion \<times> config" where
  "perform (StartRecording env) c = startRecording env c"
| "perform (StopRecording env) c = stopRecording env c"
| "perform (PlayRecording env) c = playRecording env c"
| "perform (StopPlayback stop) c = stopPlayback stop c"
| "perform (ShareRecording env) c = shareRecording env c"
| "perform (PlaybackStatusUpdate h status) c =
     (Fulfilled,
      if registered h (trace (snd c)) then onPlaybackStatusUpdate status (fst c) else fst c,
      snd c)"

definition step :: "action \<Rightarrow> config \<Rightarrow> config" where
  "step a c = snd (perform a c)"

text \<open>
  A run makes the calls one after the other: each handler has settled, and the component
  has rendered again with the state it wrote, before the next call is made, so that every
  call reads the state the one before left. The handlers of the source suspend at each
  \<open>await\<close> and read the state of the render that bound them; two calls that overlap (a
  button pressed again while its handler is still awaiting) are not runs of this kind,
  and nothing proved about \<open>run\<close> speaks of them.
\<close>

fun run :: "action list \<Rightarrow> config \<Rightarrow> config" where
  "run [] c = c"
| "run (a # as) c = run as (step a c)"

text \<open>A discipline on the caller: \<open>obeys g as c\<close> holds when every action of \<open>as\<close> is
  allowed by \<open>g\<close> in the state in which it is issued.\<close>

fun obeys :: "(controller \<Rightarrow> action \<Rightarrow> bool) \<Rightarrow> action list \<Rightarrow> config \<Rightarrow> bool" where
  "obeys g [] c = True"
| "obeys g (a # as) c = (g (fst c) a \<and> obeys g as (step a c))"

text \<open>The handlers that the rendered buttons offer: the first button calls
  \<open>stopRecording\<close> when \<open>isRecording\<close> and \<open>startRecording\<close> otherwise; the play and
  share buttons are rendered only when \<open>recordedURI\<close> is truthy, the play button calling
  \<open>stopPlayback\<close> when \<open>isPlaying\<close> and \<open>playRecording\<close> otherwise.\<close>

fun offered :: "controller \<Rightarrow> action \<Rightarrow> bool" where
  "offered s (StartRecording _) = (\<not> isRecording s)"
| "offered s (StopRecording _) = isRecording s"
| "offered s (PlayRecording _) = (truthy (recordedURI s) \<and> \<not> isPlaying s)"
| "offered s (StopPlayback _) = (truthy (recordedURI s) \<and> isPlaying s)"
| "offered s (ShareRecording _) = truthy (recordedURI s)"
| "offered s (PlaybackStatusUpdate _ _) = True"

text \<open>Two weaker disciplines: \<open>startRecording\<close> is not called while \<open>isRecording\<close>; and
  neither lifecycle is started while the flag of the other is set.\<close>

fun startsWhenIdle :: "controller \<Rightarrow> action \<Rightarrow> bool" where
  "startsWhenIdle s (StartRecording _) = (\<not> isRecording s)"
| "startsWhenIdle s _ = True"

fun serialized :: "controller \<Rightarrow> action \<Rightarrow> bool" where
  "serialized s (StartRecording _) = (\<not> isPlaying s)"
| "serialized s (PlayRecording _) = (\<not> isRecording s)"
| "serialized s _ = True"

subsection \<open>Live handles\<close>

text \<open>
  Modelled from the spec: which platform resources are live is decided by the platform
  modules, which are not part of the component's source. Following the data model of the
  specification, a recording handle exists from its successful start until its stop
  completes, and a playback handle from the successful load of a sound until it is
  unloaded. Both sets are read off the trace of platform calls.
\<close>

fun recordingEffect :: "event \<Rightarrow> handle set \<Rightarrow> handle set" where
  "recordingEffect (StartAsync h, True) L = insert h L"
| "recordingEffect (StopAndUnloadAsync h, True) L = L - {h}"
| "recordingEffect _ L = L"

fun playbackEffect :: "event \<Rightarrow> handle set \<Rightarrow> handle set" where
  "playbackEffect (CreateAsync u h, True) L = insert h L"
| "playbackEffect (UnloadAsync h, True) L = L - {h}"
| "playbackEffect _ L = L"

primrec liveRecordings :: "event list \<Rightarrow> handle set" where
  "liveRecordings [] = {}"
| "liveRecordings (e # t) = recordingEffect e (liveRecordings t)"

primrec livePlaybacks :: "event list \<Rightarrow> handle set" where
  "livePlaybacks [] = {}"
| "livePlaybacks (e # t) = playbackEffect e (livePlaybacks t)"

text \<open>A property of the trace at every moment: of the trace as it is and of each
  earlier trace (the trace grows at the front).\<close>

primrec atAllTimes :: "(event list \<Rightarrow> bool) \<Rightarrow> event list \<Rightarrow> bool" where
  "atAllTimes P [] = P []"
| "atAllTimes P (e # t) = (P (e # t) \<and> atAllTimes P t)"

text \<open>Platform answers in which every call resolves.\<close>

definition startOk :: start_env where
  "startOk = \<lparr>permissions = Resolves ''granted'', recordingMode = Resolves (),
              prepare = Resolves (), start = Resolves ()\<rparr>"

definition stopOk :: "string \<Rightarrow> stop_env" where
  "stopOk u = \<lparr>stopAndUnload = Resolves (), uri = Some u, playbackMode = Resolves ()\<rparr>"

definition playOk :: play_env where
  "playOk = \<lparr>unload = Resolves (), create = Resolves (), setVolume = Resolves (),
             play = Resolves ()\<rparr>"

definition shareOk :: share_env where
  "shareOk = \<lparr>isAvailable = Resolves True, getInfo = Resolves (), share = Resolves ()\<rparr>"

subsection \<open>Properties of traces and states\<close>

text \<open>The share hint of a sharing call and the container settings of a prepared
  recording, as predicates on single calls.\<close>

fun isShareAsync :: "call \<Rightarrow> bool" where
  "isShareAsync (ShareAsync u opts) = True"
| "isShareAsync _ = False"

fun mimeHintOk :: "call \<Rightarrow> bool" where
  "mimeHintOk (ShareAsync u opts) = (mimeType opts = ''audio/m4a'')"
| "mimeHintOk _ = True"

fun wavConfigured :: "call \<Rightarrow> bool" where
  "wavConfigured (PrepareToRecordAsync h opts) =
     (android_extension (android opts) = ''.wav'' \<and> ios_extension (ios opts) = ''.wav'' \<and>
      ios_outputFormat (ios opts) = ''lpcm'' \<and> web_mimeType (web opts) = ''audio/wav'')"
| "wavConfigured _ = True"

definition formatsInv :: "config \<Rightarrow> bool" where
  "formatsInv c = (\<forall>e \<in> set (trace (snd c)). mimeHintOk (fst e) \<and> wavConfigured (fst e))"

text \<open>The invariants behind the handle counts: the live handles are among the one the
  component holds, and a held recording goes with \<open>isRecording\<close>.\<close>

definition playbackInv :: "config \<Rightarrow> bool" where
  "playbackInv c =
     (atAllTimes (\<lambda>t. card (livePlaybacks t) \<le> 1) (trace (snd c)) \<and>
      livePlaybacks (trace (snd c)) \<subseteq> set_option (sound (fst c)))"

definition recordingInv :: "config \<Rightarrow> bool" where
  "recordingInv c =
     (atAllTimes (\<lambda>t. card (liveRecordings t) \<le> 1) (trace (snd c)) \<and>
      liveRecordings (trace (snd c)) \<subseteq> set_option (recording (fst c)) \<and>
      (recording (fst c) \<noteq> None \<longrightarrow> isRecording (fst c)))"

subsection \<open>Concrete platform answers and runs\<close>

definition permissionDenied :: start_env where
  "permissionDenied = startOk\<lparr>permissions := Resolves ''denied''\<rparr>"

definition stopFails :: stop_env where
  "stopFails = \<lparr>stopAndUnload = Rejects, uri = None, playbackMode = Resolves ()\<rparr>"

definition resetFails :: stop_env where
  "resetFails = \<lparr>stopAndUnload = Resolves (), uri = Some ''file:///rec.wav'',
                 playbackMode = Rejects\<rparr>"

definition playFails :: play_env where
  "playFails = playOk\<lparr>play := Rejects\<rparr>"

definition unloadFails :: play_env where
  "unloadFails = playOk\<lparr>unload := Rejects\<rparr>"

definition volumeFails :: play_env where
  "volumeFails = playOk\<lparr>setVolume := Rejects\<rparr>"

definition shareUnavailable :: share_env where
  "shareUnavailable = shareOk\<lparr>isAvailable := Resolves False\<rparr>"

definition finished :: playback_status where
  "finished = \<lparr>isLoaded = True, didJustFinish = True\<rparr>"

text \<open>A recording in progress; a recording made and stopped; that recording being
  played.\<close>

definition whileRecording :: config where
  "whileRecording = run [StartRecording startOk] initial"

definition withAsset :: config where
  "withAsset = run [StartRecording startOk, StopRecording (stopOk ''file:///rec.wav'')] initial"

definition whilePlaying :: config where
  "whilePlaying =
     run [StartRecording startOk, StopRecording (stopOk ''file:///rec.wav''),
          PlayRecording playOk] initial"

section \<open>Evaluation\<close>

lemmas handlers =
  startRecording_def startRecording_try_def stopRecording_def stopRecording_try_def
  playRecording_def playRecording_try_def unloadPrevious_def stopPlayback_def
  shareRecording_def shareRecording_try_def emit_def Let_def onPlaybackStatusUpdate_def

lemmas answers =
  startOk_def stopOk_def playOk_def shareOk_def permissionDenied_def stopFails_def
  resetFails_def playFails_def unloadFails_def volumeFails_def shareUnavailable_def
  finished_def

lemma whileRecording_eq:
  "whileRecording =
     (\<lparr>recording = Some 0, recordedURI = None, isRecording = True,
       sound = None, isPlaying = False, error = None\<rparr>,
      \<lparr>nextHandle = 1,
       trace = [(ConsoleLog ''Recording started'', True), (StartAsync 0, True),
                (PrepareToRecordAsync 0 recordingOptions, True),
                (SetAudioModeAsync True True, True), (RequestPermissionsAsync, True)]\<rparr>)"
  by (simp add: whileRecording_def initial_def step_def handlers answers)

lemma withAsset_eq:
  "withAsset =
     (\<lparr>recording = None, recordedURI = Some ''file:///rec.wav'', isRecording = False,
       sound = None, isPlaying = False, error = None\<rparr>,
      \<lparr>nextHandle = 1,
       trace = [(SetAudioModeAsync False False, True),
                (ConsoleLog ''Recording stopped and stored at:'', True),
                (GetURI 0, True), (StopAndUnloadAsync 0, True),
                (ConsoleLog ''Recording started'', True), (StartAsync 0, True),
                (PrepareToRecordAsync 0 recordingOptions, True),
                (SetAudioModeAsync True True, True), (RequestPermissionsAsync, True)]\<rparr>)"
  by (simp add: withAsset_def initial_def step_def handlers answers)

lemma whilePlaying_eq:
  "whilePlaying =
     (\<lparr>recording = None, recordedURI = Some ''file:///rec.wav'', isRecording = False,
       sound = Some 1, isPlaying = True, error = None\<rparr>,
      \<lparr>nextHandle = 2,
       trace = [(ConsoleLog ''Playback started'', True), (PlayAsync 1, True),
                (SetVolumeAsync 1 1, True), (SetOnPlaybackStatusUpdate 1, True),
                (CreateAsync ''file:///rec.wav'' 1, True),
                (SetAudioModeAsync False False, True),
                (ConsoleLog ''Recording stopped and stored at:'', True),
                (GetURI 0, True), (StopAndUnloadAsync 0, True),
                (ConsoleLog ''Recording started'', True), (StartAsync 0, True),
                (PrepareToRecordAsync 0 recordingOptions, True),
                (SetAudioModeAsync True True, True), (RequestPermissionsAsync, True)]\<rparr>)"
  by (simp add: whilePlaying_def initial_def step_def handlers answers asset_def truthy_def)

section \<open>Handle counts\<close>

lemma sub_card: "L \<subseteq> set_option x \<Longrightarrow> card L \<le> Suc 0"
  by (cases x) (auto simp: subset_singleton_iff)

lemma playbackInv_start: "playbackInv (s, w) \<Longrightarrow> playbackInv (snd (startRecording env (s, w)))"
  by (auto intro: sub_card
        simp: playbackInv_def startRecording_def startRecording_try_def emit_def Let_def
        split: outcome.splits)

lemma playbackInv_stop: "playbackInv (s, w) \<Longrightarrow> playbackInv (snd (stopRecording env (s, w)))"
  by (auto intro: sub_card
        simp: playbackInv_def stopRecording_def stopRecording_try_def emit_def Let_def
        split: outcome.splits option.splits)

lemma playbackInv_play: "playbackInv (s, w) \<Longrightarrow> playbackInv (snd (playRecording env (s, w)))"
  by (auto intro: sub_card
        simp: playbackInv_def playRecording_def playRecording_try_def unloadPrevious_def
          emit_def Let_def subset_singleton_iff
        split: outcome.splits option.splits)

lemma playbackInv_stopPlayback:
  "playbackInv (s, w) \<Longrightarrow> playbackInv (snd (stopPlayback stop (s, w)))"
  by (auto intro: sub_card simp: playbackInv_def stopPlayback_def emit_def
        split: outcome.splits option.splits)

lemma playbackInv_share: "playbackInv (s, w) \<Longrightarrow> playbackInv (snd (shareRecording env (s, w)))"
  by (auto intro: sub_card
        simp: playbackInv_def shareRecording_def shareRecording_try_def emit_def Let_def
        split: outcome.splits option.splits)

lemma playbackInv_step: "playbackInv c \<Longrightarrow> playbackInv (step a c)"
  by (cases a; cases c)
     (simp_all add: step_def playbackInv_start playbackInv_stop playbackInv_play
        playbackInv_stopPlayback playbackInv_share,
      simp add: playbackInv_def onPlaybackStatusUpdate_def)

lemma playbackInv_run: "playbackInv c \<Longrightarrow> playbackInv (run as c)"
  by (induction as arbitrary: c) (simp_all add: playbackInv_step)

lemma recordingInv_start:
  "recordingInv (s, w) \<Longrightarrow> \<not> isRecording s \<Longrightarrow>
   recordingInv (snd (startRecording env (s, w)))"
  by (auto intro: sub_card
        simp: recordingInv_def startRecording_def startRecording_try_def emit_def Let_def
        split: outcome.splits)

lemma recordingInv_stop: "recordingInv (s, w) \<Longrightarrow> recordingInv (snd (stopRecording env (s, w)))"
  by (auto intro: sub_card
        simp: recordingInv_def stopRecording_def stopRecording_try_def emit_def Let_def
          subset_singleton_iff
        split: outcome.splits option.splits)

lemma recordingInv_play: "recordingInv (s, w) \<Longrightarrow> recordingInv (snd (playRecording env (s, w)))"
  by (auto intro: sub_card
        simp: recordingInv_def playRecording_def playRecording_try_def unloadPrevious_def
          emit_def Let_def
        split: outcome.splits option.splits)

lemma recordingInv_stopPlayback:
  "recordingInv (s, w) \<Longrightarrow> recordingInv (snd (stopPlayback stop (s, w)))"
  by (auto intro: sub_card simp: recordingInv_def stopPlayback_def emit_def
        split: outcome.splits option.splits)

lemma recordingInv_share:
  "recordingInv (s, w) \<Longrightarrow> recordingInv (snd (shareRecording env (s, w)))"
  by (auto intro: sub_card
        simp: recordingInv_def shareRecording_def shareRecording_try_def emit_def Let_def
        split: outcome.splits option.splits)

lemma recordingInv_step:
  "recordingInv c \<Longrightarrow> startsWhenIdle (fst c) a \<Longrightarrow> recordingInv (step a c)"
  by (cases a; cases c)
     (simp_all add: step_def recordingInv_start recordingInv_stop recordingInv_play
        recordingInv_stopPlayback recordingInv_share,
      simp add: recordingInv_def onPlaybackStatusUpdate_def)

lemma recordingInv_run:
  "recordingInv c \<Longrightarrow> obeys startsWhenIdle as c \<Longrightarrow> recordingInv (run as c)"
  by (induction as arbitrary: c) (simp_all add: recordingInv_step)

text \<open>The handlers offered by the buttons keep to the discipline under which the count of
  recordings is proved: button presses made one after the other, each handler having
  settled before the next press, never start a second recording.\<close>

lemma offered_startsWhenIdle: "offered s a \<Longrightarrow> startsWhenIdle s a"
  by (cases a) simp_all

lemma obeys_weaken:
  "obeys g as c \<Longrightarrow> (\<And>s a. g s a \<Longrightarrow> g' s a) \<Longrightarrow> obeys g' as c"
  by (induction as arbitrary: c) simp_all

lemma obeys_offered_startsWhenIdle: "obeys offered as c \<Longrightarrow> obeys startsWhenIdle as c"
  by (erule obeys_weaken) (rule offered_startsWhenIdle)

text \<open>
  Claim C1, as stated, fails: \<open>startRecording\<close> does not look at the recording it already
  holds, so two calls in a row, both answered well by the platform, leave two started
  recordings of which none has been stopped.
\<close>

theorem two_recordings_live:
  "liveRecordings (trace (snd (run [StartRecording startOk, StartRecording startOk] initial)))
     = {0, 1} \<and>
   \<not> card (liveRecordings
        (trace (snd (run [StartRecording startOk, StartRecording startOk] initial)))) \<le> 1"
  by (simp add: initial_def step_def handlers answers insert_commute)

text \<open>
  Claim C1, amended: for every sequence of handler calls and status notifications made
  one after the other, each call having settled and the component having rendered again
  before the next is made (no two calls overlap), at most one playback handle is live at
  every moment; and for every such sequence in which, moreover, \<open>startRecording\<close> is
  called only while \<open>isRecording\<close> is false, at most one recording handle is live at
  every moment. Calls that overlap at an \<open>await\<close> are not covered.
\<close>

theorem handles_at_most_one:
  "atAllTimes (\<lambda>t. card (livePlaybacks t) \<le> 1) (trace (snd (run as initial))) \<and>
   (obeys startsWhenIdle as initial \<longrightarrow>
      atAllTimes (\<lambda>t. card (liveRecordings t) \<le> 1) (trace (snd (run as initial))))"
proof -
  have "playbackInv initial"
    by (simp add: playbackInv_def initial_def)
  then have p: "playbackInv (run as initial)"
    by (rule playbackInv_run)
  have r0: "recordingInv initial"
    by (simp add: recordingInv_def initial_def)
  have "recordingInv (run as initial)" if "obeys startsWhenIdle as initial"
    using r0 that by (rule recordingInv_run)
  with p show ?thesis
    by (simp add: playbackInv_def recordingInv_def)
qed

theorem handles_at_most_one_witness:
  "obeys startsWhenIdle
     [StartRecording startOk, StopRecording (stopOk ''file:///rec.wav''),
      PlayRecording playOk, PlayRecording playOk, StartRecording startOk] initial \<and>
   atAllTimes (\<lambda>t. card (liveRecordings t) \<le> 1)
     (trace (snd (run [StartRecording startOk, StopRecording (stopOk ''file:///rec.wav''),
                       PlayRecording playOk, PlayRecording playOk, StartRecording startOk]
                    initial))) \<and>
   livePlaybacks
     (trace (snd (run [StartRecording startOk, StopRecording (stopOk ''file:///rec.wav''),
                       PlayRecording playOk, PlayRecording playOk, StartRecording startOk]
                    initial))) = {2}"
proof -
  have o: "obeys startsWhenIdle
     [StartRecording startOk, StopRecording (stopOk ''file:///rec.wav''),
      PlayRecording playOk, PlayRecording playOk, StartRecording startOk] initial"
    by (simp add: initial_def step_def handlers answers asset_def truthy_def)
  have l: "livePlaybacks
     (trace (snd (run [StartRecording startOk, StopRecording (stopOk ''file:///rec.wav''),
                       PlayRecording playOk, PlayRecording playOk, StartRecording startOk]
                    initial))) = {2}"
    by (simp add: initial_def step_def handlers answers asset_def truthy_def)
  from o l handles_at_most_one
    [of "[StartRecording startOk, StopRecording (stopOk ''file:///rec.wav''),
          PlayRecording playOk, PlayRecording playOk, StartRecording startOk]"]
  show ?thesis by blast
qed

section \<open>Failures\<close>

text \<open>
  Claim C2: when the permission request is not granted, \<open>startRecording\<close> is to abort,
  leave the state as it was and surface the failure as the latest error. The handler
  does abort and does leave the state as it was, but it only writes to the console: the
  latest error is not set. From the initial state, with the answer \<open>denied\<close>, the state
  afterwards is the initial one and its error is still empty.
\<close>

theorem permission_denied_leaves_error_unset:
  "startRecording permissionDenied initial =
     (Fulfilled, fst initial,
      \<lparr>nextHandle = 0,
       trace = [(ConsoleError ''Permission to access microphone not granted'', True),
                (RequestPermissionsAsync, True)]\<rparr>) \<and>
   error (fst initial) = None"
  by (simp add: startRecording_def startRecording_try_def emit_def answers initial_def)

text \<open>In any state, a permission answer other than \<open>granted\<close> leaves the whole component
  state, the error included, as it was; the refusal goes to the console only.\<close>

lemma permission_not_granted_state_unchanged:
  "permissions env = Resolves status \<Longrightarrow> status \<noteq> ''granted'' \<Longrightarrow>
   startRecording env (s, w) =
     (Fulfilled, s,
      emit (ConsoleError ''Permission to access microphone not granted'') True
        (emit RequestPermissionsAsync True w))"
  by (simp add: startRecording_def startRecording_try_def)

text \<open>
  Claim C3, as stated, fails: when \<open>stopAndUnloadAsync\<close> rejects, the handler goes to its
  \<open>catch\<close> before any state is written, so the recording is still held and
  \<open>isRecording\<close> is still true.
\<close>

theorem stop_failure_not_discarded:
  "recording (fst whileRecording) = Some 0 \<and>
   error (fst (snd (stopRecording stopFails whileRecording))) =
     Some ''Failed to stop recording'' \<and>
   recording (fst (snd (stopRecording stopFails whileRecording))) = Some 0 \<and>
   isRecording (fst (snd (stopRecording stopFails whileRecording)))"
  by (simp add: whileRecording_eq stopRecording_def stopRecording_try_def emit_def answers)

text \<open>
  Claim C3, amended: if \<open>stopRecording\<close> is called while a recording is held and
  finalization (\<open>stopAndUnloadAsync\<close>) fails, the error ``Failed to stop recording'' is
  surfaced and nothing else of the state changes: the recording is kept and
  \<open>isRecording\<close> keeps its value. If finalization succeeds and only the reset of the
  audio mode fails, the same error is surfaced, the recording has been discarded and
  \<open>isRecording\<close> is false.
\<close>

theorem stop_failure_keeps_handle:
  "(recording s = Some r \<and> stopAndUnload env = Rejects \<longrightarrow>
      stopRecording env (s, w) =
        (Fulfilled, s\<lparr>error := Some ''Failed to stop recording''\<rparr>,
         emit (ConsoleError ''Failed to stop recording'') True
           (emit (StopAndUnloadAsync r) False w))) \<and>
   (recording s = Some r \<and> stopAndUnload env = Resolves () \<and> playbackMode env = Rejects \<longrightarrow>
      fst (snd (stopRecording env (s, w))) =
        s\<lparr>recordedURI := uri env, recording := None, isRecording := False,
          error := Some ''Failed to stop recording''\<rparr>)"
  by (simp add: stopRecording_def stopRecording_try_def)

theorem stop_failure_keeps_handle_witness:
  "recording (fst whileRecording) = Some 0 \<and> stopAndUnload stopFails = Rejects \<and>
   fst (snd (stopRecording stopFails whileRecording)) =
     (fst whileRecording)\<lparr>error := Some ''Failed to stop recording''\<rparr> \<and>
   stopAndUnload resetFails = Resolves () \<and> playbackMode resetFails = Rejects \<and>
   fst (snd (stopRecording resetFails whileRecording)) =
     (fst whileRecording)\<lparr>recordedURI := Some ''file:///rec.wav'', recording := None,
        isRecording := False, error := Some ''Failed to stop recording''\<rparr>"
proof -
  have h: "recording (fst whileRecording) = Some 0"
    by (simp add: whileRecording_eq)
  have a: "stopAndUnload stopFails = Rejects" "stopAndUnload resetFails = Resolves ()"
    "playbackMode resetFails = Rejects" "uri resetFails = Some ''file:///rec.wav''"
    by (simp_all add: answers)
  from h a
    stop_failure_keeps_handle [of "fst whileRecording" 0 stopFails "snd whileRecording"]
    stop_failure_keeps_handle [of "fst whileRecording" 0 resetFails "snd whileRecording"]
  show ?thesis by simp
qed

text \<open>
  Claim C4, as stated, fails in two ways. \<open>setIsPlaying(true)\<close> comes before the awaited
  \<open>playAsync\<close>, and the \<open>catch\<close> does not take it back: when starting the playback
  fails, the error is surfaced with \<open>isPlaying\<close> true. And the handler does not look at
  \<open>isPlaying\<close>: called while a sound plays, a failure to unload that sound leaves
  \<open>isPlaying\<close> true as it was.
\<close>

theorem play_failure_still_playing:
  "truthy (recordedURI (fst withAsset)) \<and> \<not> isPlaying (fst withAsset) \<and>
   error (fst (snd (playRecording playFails withAsset))) = Some ''Failed to play recording'' \<and>
   isPlaying (fst (snd (playRecording playFails withAsset))) \<and>
   truthy (recordedURI (fst whilePlaying)) \<and>
   error (fst (snd (playRecording unloadFails whilePlaying))) =
     Some ''Failed to play recording'' \<and>
   isPlaying (fst (snd (playRecording unloadFails whilePlaying)))"
  by (simp add: withAsset_eq whilePlaying_eq playRecording_def playRecording_try_def
        unloadPrevious_def emit_def Let_def asset_def truthy_def answers)

text \<open>
  Claim C4, amended: for every failure during \<open>playRecording\<close> with an existing asset
  (while unloading the previous sound, loading the asset, setting the volume or starting
  the playback), the error ``Failed to play recording'' is surfaced; and when the failure
  is in unloading, loading or setting the volume, \<open>isPlaying\<close> keeps the value it had
  before the call, so the state is not-playing if it was so before.
\<close>

theorem play_failure_surfaced:
  "(truthy (recordedURI s) \<and>
    ((sound s \<noteq> None \<and> unload env = Rejects) \<or> create env = Rejects \<or>
     setVolume env = Rejects \<or> play env = Rejects) \<longrightarrow>
      error (fst (snd (playRecording env (s, w)))) = Some ''Failed to play recording'') \<and>
   (truthy (recordedURI s) \<and>
    ((sound s \<noteq> None \<and> unload env = Rejects) \<or> create env = Rejects \<or>
     setVolume env = Rejects) \<longrightarrow>
      isPlaying (fst (snd (playRecording env (s, w)))) = isPlaying s)"
  by (auto simp: playRecording_def playRecording_try_def unloadPrevious_def Let_def asset_def
        truthy_def split: outcome.splits option.splits)

theorem play_failure_surfaced_witness:
  "truthy (recordedURI (fst withAsset)) \<and> setVolume volumeFails = Rejects \<and>
   error (fst (snd (playRecording volumeFails withAsset))) = Some ''Failed to play recording'' \<and>
   isPlaying (fst (snd (playRecording volumeFails withAsset))) = isPlaying (fst withAsset) \<and>
   \<not> isPlaying (fst withAsset)"
proof -
  have h: "truthy (recordedURI (fst withAsset))" "\<not> isPlaying (fst withAsset)"
    by (simp_all add: withAsset_eq truthy_def)
  have a: "setVolume volumeFails = Rejects"
    by (simp add: answers)
  from h a play_failure_surfaced [of "fst withAsset" volumeFails "snd withAsset"]
  show ?thesis by simp
qed

text \<open>
  Claim C5: no handler is to let a failure of a platform call out of the component.
  \<open>stopPlayback\<close> awaits \<open>sound.stopAsync()\<close> outside any \<open>try\<close> block, unlike the other
  four handlers: while the recording made before is being played, a rejection of
  \<open>stopAsync\<close> rejects the promise of \<open>stopPlayback\<close> itself, and no error is stored.
\<close>

theorem stopPlayback_rejection_escapes:
  "fst (stopPlayback Rejects whilePlaying) = Rejected \<and>
   fst (snd (stopPlayback Rejects whilePlaying)) = fst whilePlaying \<and>
   error (fst (snd (stopPlayback Rejects whilePlaying))) = None"
  by (simp add: whilePlaying_eq stopPlayback_def)

text \<open>The four other handlers catch every rejection: their promise is always fulfilled.\<close>

lemma handlers_with_catch_fulfil:
  "fst (startRecording env1 c) = Fulfilled"
  "fst (stopRecording env2 c) = Fulfilled"
  "fst (playRecording env3 c) = Fulfilled"
  "fst (shareRecording env4 c) = Fulfilled"
  by (cases c; simp add: handlers split: outcome.splits option.splits flow.splits prod.splits)+

text \<open>
  Claim C8: when \<open>shareRecording\<close> is called with an existing asset and the share service
  answers that it is not available, the error ``Sharing is not available on this device''
  is surfaced and \<open>shareAsync\<close> is not called: the one call made is the availability
  query, so the sharing calls of the trace are those that were there before.
\<close>

theorem share_unavailable:
  "truthy (recordedURI s) \<Longrightarrow> isAvailable env = Resolves False \<Longrightarrow>
   shareRecording env (s, w) =
     (Fulfilled, s\<lparr>error := Some ''Sharing is not available on this device''\<rparr>,
      emit IsAvailableAsync True w) \<and>
   filter (\<lambda>e. isShareAsync (fst e)) (trace (snd (snd (shareRecording env (s, w))))) =
     filter (\<lambda>e. isShareAsync (fst e)) (trace w)"
  by (simp add: shareRecording_def shareRecording_try_def asset_def truthy_def emit_def
        split: option.splits)

theorem share_unavailable_witness:
  "truthy (recordedURI (fst withAsset)) \<and> isAvailable shareUnavailable = Resolves False \<and>
   error (fst (snd (shareRecording shareUnavailable withAsset))) =
     Some ''Sharing is not available on this device'' \<and>
   filter (\<lambda>e. isShareAsync (fst e))
     (trace (snd (snd (shareRecording shareUnavailable withAsset)))) = []"
proof -
  have h: "truthy (recordedURI (fst withAsset))"
    by (simp add: withAsset_eq truthy_def)
  have a: "isAvailable shareUnavailable = Resolves False"
    by (simp add: answers)
  have t: "filter (\<lambda>e. isShareAsync (fst e)) (trace (snd withAsset)) = []"
    by (simp add: withAsset_eq)
  from h a t share_unavailable [OF h a, of "snd withAsset"]
  show ?thesis by (simp add: emit_def)
qed

section \<open>The two flags\<close>

lemma flags_step:
  "serialized (fst c) a \<Longrightarrow> \<not> (isRecording (fst c) \<and> isPlaying (fst c)) \<Longrightarrow>
   \<not> (isRecording (fst (step a c)) \<and> isPlaying (fst (step a c)))"
  by (cases a; cases c)
     (auto simp: step_def handlers split: outcome.splits option.splits if_splits)

lemma flags_run:
  "obeys serialized as c \<Longrightarrow> \<not> (isRecording (fst c) \<and> isPlaying (fst c)) \<Longrightarrow>
   \<not> (isRecording (fst (run as c)) \<and> isPlaying (fst (run as c)))"
proof (induction as arbitrary: c)
  case Nil
  then show ?case by simp
next
  case (Cons a as)
  from Cons.prems have "\<not> (isRecording (fst (step a c)) \<and> isPlaying (fst (step a c)))"
    by (simp add: flags_step)
  with Cons.prems Cons.IH [of "step a c"] show ?case by simp
qed

lemma obeys_take: "obeys g as c \<Longrightarrow> obeys g (take n as) c"
  by (induction as arbitrary: c n) (auto simp: take_Cons split: nat.splits)

text \<open>
  Claim C6, as stated, fails: neither \<open>startRecording\<close> looks at \<open>isPlaying\<close> nor
  \<open>playRecording\<close> at \<open>isRecording\<close>, and the record button stays available while a
  sound plays. Record, stop, play, record again, each handler being the one its button
  offers at that moment, ends with both flags true.
\<close>

theorem flags_both_true:
  "obeys offered
     [StartRecording startOk, StopRecording (stopOk ''file:///rec.wav''),
      PlayRecording playOk, StartRecording startOk] initial \<and>
   isRecording
     (fst (run [StartRecording startOk, StopRecording (stopOk ''file:///rec.wav''),
                PlayRecording playOk, StartRecording startOk] initial)) \<and>
   isPlaying
     (fst (run [StartRecording startOk, StopRecording (stopOk ''file:///rec.wav''),
                PlayRecording playOk, StartRecording startOk] initial))"
  by (simp add: initial_def step_def handlers answers asset_def truthy_def)

text \<open>
  Claim C6, amended: the component does not serialize the two lifecycles itself; for every
  sequence of operations made one after the other, each having settled and the component
  having rendered again before the next is made (no two calls overlap), in which the
  caller serializes them (\<open>startRecording\<close> is never called while \<open>isPlaying\<close>,
  \<open>playRecording\<close> never while \<open>isRecording\<close>), the flags \<open>isRecording\<close> and
  \<open>isPlaying\<close> are never both true, after any number of the operations. Calls that
  overlap at an \<open>await\<close> are not covered.
\<close>

theorem flags_exclusive_when_serialized:
  "obeys serialized as initial \<Longrightarrow>
   \<forall>n \<le> length as. \<not> (isRecording (fst (run (take n as) initial)) \<and>
                        isPlaying (fst (run (take n as) initial)))"
proof (intro allI impI)
  fix n
  assume o: "obeys serialized as initial"
  have "\<not> (isRecording (fst initial) \<and> isPlaying (fst initial))"
    by (simp add: initial_def)
  with obeys_take [OF o, of n]
  show "\<not> (isRecording (fst (run (take n as) initial)) \<and>
            isPlaying (fst (run (take n as) initial)))"
    by (rule flags_run)
qed

theorem flags_exclusive_when_serialized_witness:
  "obeys serialized
     [StartRecording startOk, StopRecording (stopOk ''file:///rec.wav''),
      PlayRecording playOk, StopPlayback (Resolves ()), StartRecording startOk] initial \<and>
   \<not> (isRecording
        (fst (run (take 3 [StartRecording startOk, StopRecording (stopOk ''file:///rec.wav''),
                PlayRecording playOk, StopPlayback (Resolves ()), StartRecording startOk])
               initial)) \<and>
      isPlaying
        (fst (run (take 3 [StartRecording startOk, StopRecording (stopOk ''file:///rec.wav''),
                PlayRecording playOk, StopPlayback (Resolves ()), StartRecording startOk])
               initial))) \<and>
   isPlaying
     (fst (run (take 3 [StartRecording startOk, StopRecording (stopOk ''file:///rec.wav''),
             PlayRecording playOk, StopPlayback (Resolves ()), StartRecording startOk])
            initial))"
proof -
  have o: "obeys serialized
     [StartRecording startOk, StopRecording (stopOk ''file:///rec.wav''),
      PlayRecording playOk, StopPlayback (Resolves ()), StartRecording startOk] initial"
    by (simp add: initial_def step_def handlers answers asset_def truthy_def)
  have p: "isPlaying
     (fst (run (take 3 [StartRecording startOk, StopRecording (stopOk ''file:///rec.wav''),
             PlayRecording playOk, StopPlayback (Resolves ()), StartRecording startOk])
            initial))"
    by (simp add: initial_def step_def handlers answers asset_def truthy_def)
  from o p flags_exclusive_when_serialized [OF o, THEN spec, of 3]
  show ?thesis by simp
qed

section \<open>The latest error\<close>

text \<open>
  Claim C7, as stated, fails: no handler ever clears the error, and an attempt that
  surfaces no error of its own leaves the stored one in place. After \<open>playRecording\<close>
  without a recording has stored its error, a successful \<open>startRecording\<close> still shows
  it.
\<close>

theorem stale_error_survives_success:
  "error (fst (run [PlayRecording playOk] initial)) = Some ''No recording to play'' \<and>
   isRecording (fst (run [PlayRecording playOk, StartRecording startOk] initial)) \<and>
   error (fst (run [PlayRecording playOk, StartRecording startOk] initial)) =
     Some ''No recording to play''"
  by (simp add: initial_def step_def handlers answers asset_def truthy_def)

text \<open>
  Claim C7, amended: errors do not accumulate. At every point at most one latest-error
  value is held, and an attempt that surfaces an error replaces the stored one by its
  own, whatever was stored; an attempt that surfaces none leaves the stored error as it
  was.
\<close>

theorem error_replaced_or_kept:
  "error (fst (step a (s\<lparr>error := e\<rparr>, w))) =
     (case error (fst (step a (s\<lparr>error := None\<rparr>, w))) of
        None \<Rightarrow> e
      | Some m \<Rightarrow> Some m)"
  by (cases a) (auto simp: step_def handlers split: outcome.splits option.splits if_splits)

theorem error_replaced_or_kept_witness:
  "error (fst (step (ShareRecording shareOk)
                ((fst initial)\<lparr>error := Some ''No recording to play''\<rparr>, snd initial))) =
     Some ''No recording to share''"
proof -
  have "error (fst (step (ShareRecording shareOk)
                ((fst initial)\<lparr>error := None\<rparr>, snd initial))) = Some ''No recording to share''"
    by (simp add: initial_def step_def handlers answers asset_def truthy_def)
  with error_replaced_or_kept
    [where a = "ShareRecording shareOk" and s = "fst initial"
       and e = "Some ''No recording to play''" and w = "snd initial"]
  show ?thesis by simp
qed

section \<open>Playback completion and sharing\<close>

text \<open>
  Claim C9: after a \<open>playRecording\<close> in which every platform call resolves,
  \<open>isPlaying\<close> is true and the new sound carries the status callback; when the platform
  then reports that this loaded sound has just finished, the callback sets \<open>isPlaying\<close>
  to false. Nothing else changes: no call is made on the platform, \<open>stopPlayback\<close> takes
  no part.
\<close>

theorem natural_completion:
  "truthy (recordedURI s) \<Longrightarrow> sound s = None \<or> unload env = Resolves () \<Longrightarrow>
   create env = Resolves () \<Longrightarrow> setVolume env = Resolves () \<Longrightarrow> play env = Resolves () \<Longrightarrow>
   isLoaded status \<Longrightarrow> didJustFinish status \<Longrightarrow>
   isPlaying (fst (step (PlayRecording env) (s, w))) \<and>
   sound (fst (step (PlayRecording env) (s, w))) = Some (nextHandle w) \<and>
   registered (nextHandle w) (trace (snd (step (PlayRecording env) (s, w)))) \<and>
   step (PlaybackStatusUpdate (nextHandle w) status) (step (PlayRecording env) (s, w)) =
     ((fst (step (PlayRecording env) (s, w)))\<lparr>isPlaying := False\<rparr>,
      snd (step (PlayRecording env) (s, w)))"
  by (auto simp: step_def registered_def playRecording_def playRecording_try_def
        unloadPrevious_def emit_def Let_def onPlaybackStatusUpdate_def asset_def truthy_def
        split: option.splits)

theorem natural_completion_witness:
  "truthy (recordedURI (fst withAsset)) \<and> sound (fst withAsset) = None \<and>
   isLoaded finished \<and> didJustFinish finished \<and>
   isPlaying (fst (step (PlayRecording playOk) withAsset)) \<and>
   \<not> isPlaying
       (fst (step (PlaybackStatusUpdate 1 finished) (step (PlayRecording playOk) withAsset))) \<and>
   snd (step (PlaybackStatusUpdate 1 finished) (step (PlayRecording playOk) withAsset)) =
     snd (step (PlayRecording playOk) withAsset)"
proof -
  have h: "truthy (recordedURI (fst withAsset))" "sound (fst withAsset) = None"
    "nextHandle (snd withAsset) = 1"
    by (simp_all add: withAsset_eq truthy_def)
  have a: "create playOk = Resolves ()" "setVolume playOk = Resolves ()"
    "play playOk = Resolves ()" "isLoaded finished" "didJustFinish finished"
    by (simp_all add: answers)
  from h a natural_completion
    [where s = "fst withAsset" and w = "snd withAsset" and env = playOk and status = finished]
  show ?thesis by simp
qed

lemma formats_step: "formatsInv c \<Longrightarrow> formatsInv (step a c)"
  by (cases a; cases c)
     (auto simp: formatsInv_def step_def handlers recordingOptions_def shareOptions_def
        split: outcome.splits option.splits if_splits)

lemma formats_run: "formatsInv c \<Longrightarrow> formatsInv (run as c)"
  by (induction as arbitrary: c) (simp_all add: formats_step)

text \<open>
  Claim C10: whenever \<open>shareRecording\<close> reaches the share invocation (an asset exists,
  sharing is available, the file information has been read), the call is \<open>shareAsync\<close> on
  the asset with the MIME type \<open>audio/m4a\<close>, whatever the asset is. And in every trace the
  component produces, each sharing call carries that hint, while each recording has been
  prepared with the extension \<open>.wav\<close>, the output format \<open>lpcm\<close> and, on the web,
  \<open>audio/wav\<close>.
\<close>

theorem share_mime_hint_fixed:
  "(truthy (recordedURI s) \<and> isAvailable env = Resolves True \<and> getInfo env = Resolves () \<longrightarrow>
      (\<exists>u. recordedURI s = Some u \<and>
         (ShareAsync u
            \<lparr>mimeType = ''audio/m4a'', dialogTitle = ''Share your audio recording'',
             UTI = ''public.audio''\<rparr>,
          share env = Resolves ())
          \<in> set (trace (snd (snd (shareRecording env (s, w))))))) \<and>
   (\<forall>e \<in> set (trace (snd (run as initial))). mimeHintOk (fst e) \<and> wavConfigured (fst e))"
proof
  show "truthy (recordedURI s) \<and> isAvailable env = Resolves True \<and> getInfo env = Resolves () \<longrightarrow>
      (\<exists>u. recordedURI s = Some u \<and>
         (ShareAsync u
            \<lparr>mimeType = ''audio/m4a'', dialogTitle = ''Share your audio recording'',
             UTI = ''public.audio''\<rparr>,
          share env = Resolves ())
          \<in> set (trace (snd (snd (shareRecording env (s, w))))))"
    by (auto simp: shareRecording_def shareRecording_try_def emit_def Let_def asset_def
          truthy_def shareOptions_def split: option.splits outcome.splits)
next
  have "formatsInv initial"
    by (simp add: formatsInv_def initial_def)
  then have "formatsInv (run as initial)"
    by (rule formats_run)
  then show "\<forall>e \<in> set (trace (snd (run as initial))). mimeHintOk (fst e) \<and> wavConfigured (fst e)"
    by (simp add: formatsInv_def)
qed

theorem share_mime_hint_fixed_witness:
  "truthy (recordedURI (fst withAsset)) \<and> isAvailable shareOk = Resolves True \<and>
   getInfo shareOk = Resolves () \<and>
   (ShareAsync ''file:///rec.wav''
      \<lparr>mimeType = ''audio/m4a'', dialogTitle = ''Share your audio recording'',
       UTI = ''public.audio''\<rparr>, True)
     \<in> set (trace (snd (snd (shareRecording shareOk withAsset)))) \<and>
   (PrepareToRecordAsync 0 recordingOptions, True)
     \<in> set (trace (snd (snd (shareRecording shareOk withAsset)))) \<and>
   wavConfigured (PrepareToRecordAsync 0 recordingOptions)"
proof -
  have h: "truthy (recordedURI (fst withAsset))"
    "recordedURI (fst withAsset) = Some ''file:///rec.wav''"
    by (simp_all add: withAsset_eq truthy_def)
  have a: "isAvailable shareOk = Resolves True" "getInfo shareOk = Resolves ()"
    "share shareOk = Resolves ()"
    by (simp_all add: answers)
  have p: "(PrepareToRecordAsync 0 recordingOptions, True)
     \<in> set (trace (snd (snd (shareRecording shareOk withAsset))))"
    by (simp add: withAsset_eq shareRecording_def shareRecording_try_def emit_def Let_def
          asset_def truthy_def answers)
  have c: "wavConfigured (PrepareToRecordAsync 0 recordingOptions)"
    by (simp add: recordingOptions_def)
  from h a p c share_mime_hint_fixed
    [where s = "fst withAsset" and w = "snd withAsset" and env = shareOk and as = "[]"]
  show ?thesis by simp
qed

end
